theory Spec2Isabelle
  imports
    Main
    "HOL-Library.AList"
    "HOL-Library.Char_ord"
    "HOL-Library.List_Lexorder"
begin

section \<open>Values, dictionaries and the build table\<close>

text \<open>
  The API handler (the Python inlined in \<^verbatim>\<open>cdk/lib/api-gateway-stack.ts\<close>) works on
  JSON-shaped Python values: the decoded request body, the DynamoDB items and the
  response bodies. A dict is an association list read by \<open>map_of\<close>, so a key is bound
  to the first value listed for it. A number is a Python \<^verbatim>\<open>int\<close>, or a \<^verbatim>\<open>float\<close>
  given by the significand and the decimal exponent of its literal.
\<close>

datatype json =
    JNull
  | JBool bool
  | JInt int
  | JFloat int int
  | JStr string
  | JArr "json list"
  | JObj "(string \<times> json) list"

type_synonym dict = "(string \<times> json) list"

text \<open>Python's truth value of a decoded value, as \<^verbatim>\<open>if not task\<close> reads it.\<close>

fun truthy :: "json \<Rightarrow> bool" where
  "truthy JNull = False"
| "truthy (JBool b) = b"
| "truthy (JInt n) = (n \<noteq> 0)"
| "truthy (JFloat m e) = (m \<noteq> 0)"
| "truthy (JStr s) = (s \<noteq> [])"
| "truthy (JArr xs) = (xs \<noteq> [])"
| "truthy (JObj kvs) = (kvs \<noteq> [])"

text \<open>\<^verbatim>\<open>d.get(k, default)\<close>; \<^verbatim>\<open>d.get(k)\<close> is \<open>dict_get d k JNull\<close>.\<close>

definition dict_get :: "dict \<Rightarrow> string \<Rightarrow> json \<Rightarrow> json" where
  "dict_get d k dflt = (case map_of d k of None \<Rightarrow> dflt | Some v \<Rightarrow> v)"

fun str_attr :: "string \<Rightarrow> dict \<Rightarrow> string option" where
  "str_attr a item = (case map_of item a of Some (JStr s) \<Rightarrow> Some s | _ \<Rightarrow> None)"

datatype py_exn =
    TypeError
  | JSONDecodeError
  | AttributeError
  | IndexError
  | DecimalException
  | ValidationException
  | ClientError

text \<open>
  What boto3 does with a value before a write goes out: a \<^verbatim>\<open>float\<close> raises
  \<^verbatim>\<open>TypeError\<close>, and an \<^verbatim>\<open>int\<close> of more than 38 digits raises a signal of the decimal
  context (\<^verbatim>\<open>Inexact\<close> or \<^verbatim>\<open>Rounded\<close>); the values inside a list or a dict are
  treated in their order, and the first that raises decides.
\<close>

fun first_error :: "py_exn option list \<Rightarrow> py_exn option" where
  "first_error [] = None"
| "first_error (None # es) = first_error es"
| "first_error (Some e # es) = Some e"

fun serialize_error :: "json \<Rightarrow> py_exn option" where
  "serialize_error JNull = None"
| "serialize_error (JBool b) = None"
| "serialize_error (JInt n) = (if \<bar>n\<bar> < 10 ^ 38 then None else Some DecimalException)"
| "serialize_error (JFloat m e) = Some TypeError"
| "serialize_error (JStr s) = None"
| "serialize_error (JArr xs) = first_error (map serialize_error xs)"
| "serialize_error (JObj kvs) = first_error (map (\<lambda>kv. serialize_error (snd kv)) kvs)"

text \<open>
  The table \<^verbatim>\<open>bedrock-builder-state\<close> has the partition key \<^verbatim>\<open>build_id\<close>, a string:
  one item per key. \<^verbatim>\<open>put_item\<close> replaces the item of its key. \<^verbatim>\<open>update_item\<close> with
  a \<^verbatim>\<open>SET\<close> expression assigns the listed attributes of the item of the key and
  leaves every other attribute as it is (an absent item is created from the key). A
  target of the expression is a placeholder (\<^verbatim>\<open>#status\<close>), which
  \<^verbatim>\<open>ExpressionAttributeNames\<close> must bind, or an attribute name written out, which
  must not be a reserved word of DynamoDB: otherwise the call raises a validation
  error and writes nothing. Of the reserved words, \<open>reserved_words\<close> lists those among
  the attribute names the handler's expressions write (\<^verbatim>\<open>updated_at\<close> is not
  reserved). What else makes the service refuse a write (the size of the item,
  throttling, an outage) is the environment's to say, below.
\<close>

type_synonym table = "(string \<times> dict) list"

definition get_item :: "table \<Rightarrow> string \<Rightarrow> dict option" where
  "get_item t k = map_of t k"

definition put_item :: "dict \<Rightarrow> table \<Rightarrow> py_exn + table" where
  "put_item item t =
     (case serialize_error (JObj item) of
        Some e \<Rightarrow> Inl e
      | None \<Rightarrow>
          (case str_attr ''build_id'' item of
             None \<Rightarrow> Inl ValidationException
           | Some k \<Rightarrow> Inr (AList.update k item t)))"

definition reserved_words :: "string list" where
  "reserved_words = [''error'', ''status'']"

definition attr_name :: "(string \<times> string) list \<Rightarrow> string \<Rightarrow> py_exn + string" where
  "attr_name names target =
     (case target of
        CHR ''#'' # _ \<Rightarrow>
          (case map_of names target of
             None \<Rightarrow> Inl ValidationException
           | Some a \<Rightarrow> Inr a)
      | _ \<Rightarrow> if target \<in> set reserved_words then Inl ValidationException else Inr target)"

fun resolve_targets ::
  "(string \<times> string) list \<Rightarrow> (string \<times> json) list \<Rightarrow> py_exn + (string \<times> json) list" where
  "resolve_targets names [] = Inr []"
| "resolve_targets names ((target, v) # sets) =
     (case attr_name names target of
        Inl e \<Rightarrow> Inl e
      | Inr a \<Rightarrow>
          (case resolve_targets names sets of
             Inl e \<Rightarrow> Inl e
           | Inr assigns \<Rightarrow> Inr ((a, v) # assigns)))"

definition set_attrs :: "(string \<times> json) list \<Rightarrow> dict \<Rightarrow> dict" where
  "set_attrs assigns item = fold (\<lambda>(a, v). AList.update a v) assigns item"

definition update_item ::
  "string \<Rightarrow> (string \<times> string) list \<Rightarrow> (string \<times> json) list \<Rightarrow> table \<Rightarrow> py_exn + table" where
  "update_item k names sets t =
     (case first_error (map (\<lambda>kv. serialize_error (snd kv)) sets) of
        Some e \<Rightarrow> Inl e
      | None \<Rightarrow>
          (case resolve_targets names sets of
             Inl e \<Rightarrow> Inl e
           | Inr assigns \<Rightarrow>
               Inr (AList.update k
                      (set_attrs assigns
                         (case map_of t k of
                            None \<Rightarrow> [(''build_id'', JStr k)]
                          | Some item \<Rightarrow> item)) t)))"

text \<open>
  The global secondary index \<^verbatim>\<open>status-index\<close> of the storage stack: partition key
  \<^verbatim>\<open>status\<close>, sort key \<^verbatim>\<open>created_at\<close>, both of type STRING. An item is in an index
  when it has both key attributes as strings. A query of an index on a partition-key
  value reads the items of that value in the order of the sort key, ascending when
  \<^verbatim>\<open>ScanIndexForward\<close> holds and descending otherwise, and stops after \<^verbatim>\<open>Limit\<close>
  items. A scan reads the table in no promised order; here it is the table's own.
\<close>

record index_def =
  indexName :: string
  partitionKey :: string
  sortKey :: string

definition status_index :: index_def where
  "status_index =
     \<lparr>indexName = ''status-index'', partitionKey = ''status'', sortKey = ''created_at''\<rparr>"

definition table_indexes :: "index_def list" where
  "table_indexes = [status_index]"

definition in_index :: "index_def \<Rightarrow> dict \<Rightarrow> bool" where
  "in_index ix item =
     (str_attr (partitionKey ix) item \<noteq> None \<and> str_attr (sortKey ix) item \<noteq> None)"

definition sort_value :: "index_def \<Rightarrow> dict \<Rightarrow> string" where
  "sort_value ix item = (case str_attr (sortKey ix) item of Some s \<Rightarrow> s | None \<Rightarrow> [])"

definition index_query :: "index_def \<Rightarrow> string \<Rightarrow> bool \<Rightarrow> nat \<Rightarrow> table \<Rightarrow> dict list" where
  "index_query ix v scanIndexForward limit t =
     (let hits = filter (\<lambda>item. in_index ix item \<and> str_attr (partitionKey ix) item = Some v)
                   (map snd t);
          asc = sort_key (sort_value ix) hits
      in take limit (if scanIndexForward then asc else rev asc))"

definition table_query :: "string \<Rightarrow> string \<Rightarrow> bool \<Rightarrow> nat \<Rightarrow> table \<Rightarrow> py_exn + dict list" where
  "table_query name v scanIndexForward limit t =
     (case find (\<lambda>ix. indexName ix = name) table_indexes of
        None \<Rightarrow> Inl ValidationException
      | Some ix \<Rightarrow> Inr (index_query ix v scanIndexForward limit t))"

definition table_scan :: "nat \<Rightarrow> table \<Rightarrow> dict list" where
  "table_scan limit t = take limit (map snd t)"

section \<open>The lifecycle API handler\<close>

text \<open>
  What the handler reads from outside: the identifier \<^verbatim>\<open>uuid4()\<close> issues, the reading
  of \<^verbatim>\<open>datetime.utcnow().isoformat()\<close> (each operation reads the clock once), the two
  environment variables of the execution ARN, how Step Functions answers
  \<^verbatim>\<open>start_execution\<close> (the text of the exception, or the execution's ARN) and
  \<^verbatim>\<open>stop_execution\<close>, what the log bucket holds under a key, the text \<^verbatim>\<open>str(e)\<close>
  of an exception, and the exception, if any, with which the table refuses a write
  that is well-formed (\<open>table_fault\<close>, of the call as the log shows it).
\<close>

text \<open>
  The calls an operation makes that write: to the table and to Step Functions. In an
  \<open>UpdateItem\<close> the targets are shown with their placeholders read.
\<close>

datatype effect =
    PutItem dict
  | UpdateItem string "(string \<times> json) list"
  | StartExecution string dict
  | StopExecution string

datatype stop_outcome =
    Stopped
  | ExecutionDoesNotExist
  | StopError string

datatype s3_outcome =
    LogBody string
  | NoSuchKey
  | S3Error string

record env =
  uuid4 :: string
  utcnow :: string
  aws_region :: "string option"
  aws_account_id :: "string option"
  start_execution :: "string \<Rightarrow> dict \<Rightarrow> string + string"
  stop_execution :: "string \<Rightarrow> stop_outcome"
  get_object :: "string \<Rightarrow> s3_outcome"
  exn_text :: "py_exn \<Rightarrow> string"
  table_fault :: "effect \<Rightarrow> py_exn option"

text \<open>
  The event of API Gateway. The field \<open>ev_body\<close> is what
  \<^verbatim>\<open>json.loads(event.get('body', '{}'))\<close> meets: no \<^verbatim>\<open>body\<close> key, a value that is
  not text (\<^verbatim>\<open>null\<close> for a request without a body), text that is not JSON, or text
  that decodes to a value.
\<close>

datatype event_body =
    NoBody
  | BodyNotText
  | BodyMalformed
  | BodyJson json

record event =
  path :: string
  httpMethod :: string
  ev_body :: event_body
  queryStringParameters :: "(string \<times> string) list option"

definition loads_body :: "event \<Rightarrow> py_exn + json" where
  "loads_body ev =
     (case ev_body ev of
        NoBody \<Rightarrow> Inr (JObj [])
      | BodyNotText \<Rightarrow> Inl TypeError
      | BodyMalformed \<Rightarrow> Inl JSONDecodeError
      | BodyJson v \<Rightarrow> Inr v)"

text \<open>
  The world is the table and the log of the writing calls, in the order the handler
  makes them. A call that raises is in the log and changes nothing.
\<close>


record world =
  tbl :: table
  log :: "effect list"

record 'b lambda_result =
  statusCode :: int
  body :: 'b

type_synonym response = "json lambda_result"

definition respond :: "int \<Rightarrow> dict \<Rightarrow> response" where
  "respond code kvs = \<lparr>statusCode = code, body = JObj kvs\<rparr>"

definition note_effect :: "effect \<Rightarrow> world \<Rightarrow> world" where
  "note_effect e w = w\<lparr>log := log w @ [e]\<rparr>"

definition do_put_item :: "env \<Rightarrow> dict \<Rightarrow> world \<Rightarrow> py_exn option \<times> world" where
  "do_put_item en item w =
     (let w' = note_effect (PutItem item) w
      in case put_item item (tbl w) of
           Inl e \<Rightarrow> (Some e, w')
         | Inr t \<Rightarrow>
             (case table_fault en (PutItem item) of
                Some e \<Rightarrow> (Some e, w')
              | None \<Rightarrow> (None, w'\<lparr>tbl := t\<rparr>)))"

definition shown_target :: "(string \<times> string) list \<Rightarrow> string \<Rightarrow> string" where
  "shown_target names target = (case map_of names target of None \<Rightarrow> target | Some a \<Rightarrow> a)"

definition do_update_item ::
  "env \<Rightarrow> string \<Rightarrow> (string \<times> string) list \<Rightarrow> (string \<times> json) list \<Rightarrow> world
     \<Rightarrow> py_exn option \<times> world" where
  "do_update_item en k names sets w =
     (let call = UpdateItem k (map (\<lambda>(target, v). (shown_target names target, v)) sets);
          w' = note_effect call w
      in case update_item k names sets (tbl w) of
           Inl e \<Rightarrow> (Some e, w')
         | Inr t \<Rightarrow>
             (case table_fault en call of
                Some e \<Rightarrow> (Some e, w')
              | None \<Rightarrow> (None, w'\<lparr>tbl := t\<rparr>)))"

text \<open>The \<^verbatim>\<open>Item\<close> of \<^verbatim>\<open>put_item\<close> and the \<^verbatim>\<open>execution_input\<close> of \<^verbatim>\<open>start_build\<close>.\<close>

definition new_item :: "string \<Rightarrow> json \<Rightarrow> json \<Rightarrow> json \<Rightarrow> string \<Rightarrow> dict" where
  "new_item build_id task mode max_iterations timestamp =
     [(''build_id'', JStr build_id),
      (''task'', task),
      (''mode'', mode),
      (''status'', JStr ''initiated''),
      (''current_iteration'', JInt 0),
      (''max_iterations'', max_iterations),
      (''created_at'', JStr timestamp),
      (''updated_at'', JStr timestamp)]"

definition execution_input :: "string \<Rightarrow> json \<Rightarrow> json \<Rightarrow> json \<Rightarrow> dict" where
  "execution_input build_id task mode max_iterations =
     [(''build_id'', JStr build_id),
      (''task'', task),
      (''mode'', mode),
      (''max_iterations'', max_iterations)]"

definition start_error_msg :: "string \<Rightarrow> string" where
  "start_error_msg e = ''Error starting Step Functions execution: '' @ e"

text \<open>
  \<^verbatim>\<open>start_build\<close>. The \<^verbatim>\<open>put_item\<close> stands before the \<^verbatim>\<open>try\<close>, and the update of the
  failure path stands inside the \<^verbatim>\<open>except\<close> block: an exception of either leaves the
  function. The update's expression is
  \<^verbatim>\<open>SET #status = :status, error = :error\<close>, with \<^verbatim>\<open>#status\<close> bound to \<^verbatim>\<open>status\<close>.
\<close>

definition start_build :: "env \<Rightarrow> event \<Rightarrow> world \<Rightarrow> (py_exn + response) \<times> world" where
  "start_build en ev w =
     (case loads_body ev of
        Inl e \<Rightarrow> (Inl e, w)
      | Inr (JObj bdy) \<Rightarrow>
          (let task = dict_get bdy ''task'' JNull;
               mode = dict_get bdy ''mode'' (JStr ''new_project'');
               max_iterations = dict_get bdy ''max_iterations'' (JInt 3)
           in if \<not> truthy task
              then (Inr (respond 400 [(''error'', JStr ''task is required'')]), w)
              else
                (let build_id = uuid4 en;
                     timestamp = utcnow en
                 in case do_put_item en (new_item build_id task mode max_iterations timestamp) w of
                      (Some e, w1) \<Rightarrow> (Inl e, w1)
                    | (None, w1) \<Rightarrow>
                        (let inp = execution_input build_id task mode max_iterations;
                             w2 = note_effect (StartExecution build_id inp) w1
                         in case start_execution en build_id inp of
                              Inr executionArn \<Rightarrow>
                                (Inr (respond 202
                                   [(''build_id'', JStr build_id),
                                    (''execution_arn'', JStr executionArn),
                                    (''status'', JStr ''initiated''),
                                    (''message'', JStr ''Build started with parallel execution'')]),
                                 w2)
                            | Inl e \<Rightarrow>
                                (let error_msg = start_error_msg e
                                 in case do_update_item en build_id [(''#status'', ''status'')]
                                           [(''#status'', JStr ''failed''),
                                            (''error'', JStr error_msg)] w2 of
                                      (Some x, w3) \<Rightarrow> (Inl x, w3)
                                    | (None, w3) \<Rightarrow>
                                        (Inr (respond 500
                                           [(''build_id'', JStr build_id),
                                            (''status'', JStr ''failed''),
                                            (''error'', JStr error_msg)]), w3)))))
      | Inr _ \<Rightarrow> (Inl AttributeError, w))"

definition get_build_status :: "string \<Rightarrow> world \<Rightarrow> response" where
  "get_build_status build_id w =
     (case get_item (tbl w) build_id of
        None \<Rightarrow> respond 404 [(''error'', JStr ''Build not found'')]
      | Some item \<Rightarrow> \<lparr>statusCode = 200, body = JObj item\<rparr>)"

definition list_builds :: "event \<Rightarrow> world \<Rightarrow> py_exn + response" where
  "list_builds ev w =
     (let params = (case queryStringParameters ev of None \<Rightarrow> [] | Some ps \<Rightarrow> ps);
          status_filter = map_of params ''status'';
          found =
            (case status_filter of
               None \<Rightarrow> Inr (table_scan 50 (tbl w))
             | Some s \<Rightarrow>
                 if s \<noteq> [] then table_query ''status-index'' s False 50 (tbl w)
                 else Inr (table_scan 50 (tbl w)))
      in case found of
           Inl e \<Rightarrow> Inl e
         | Inr items \<Rightarrow>
             Inr (respond 200
               [(''builds'', JArr (map JObj items)),
                (''count'', JInt (int (length items)))]))"

text \<open>\<^verbatim>\<open>path.split('/')\<close>, and the element \<^verbatim>\<open>[-2]\<close> of the parts.\<close>

fun split_on :: "char \<Rightarrow> string \<Rightarrow> string list" where
  "split_on c [] = [[]]"
| "split_on c (x # xs) =
     (if x = c then [] # split_on c xs
      else (case split_on c xs of
              p # ps \<Rightarrow> (x # p) # ps
            | [] \<Rightarrow> [[x]]))"

definition second_last :: "string list \<Rightarrow> py_exn + string" where
  "second_last parts =
     (if length parts < 2 then Inl IndexError else Inr (parts ! (length parts - 2)))"

definition get_build_logs :: "env \<Rightarrow> event \<Rightarrow> world \<Rightarrow> py_exn + response" where
  "get_build_logs en ev w =
     (case second_last (split_on CHR ''/'' (path ev)) of
        Inl e \<Rightarrow> Inl e
      | Inr build_id \<Rightarrow>
          (case get_item (tbl w) build_id of
             None \<Rightarrow> Inr (respond 404 [(''error'', JStr ''Build not found'')])
           | Some build \<Rightarrow>
               (case get_object en (build_id @ ''/test-output.log'') of
                  LogBody log_content \<Rightarrow>
                    Inr (respond 200
                      [(''build_id'', JStr build_id),
                       (''logs'', JStr log_content),
                       (''log_size'', JInt (int (length log_content)))])
                | NoSuchKey \<Rightarrow>
                    Inr (respond 404
                      [(''error'', JStr ''Logs not found''),
                       (''message'', JStr ''Build has not yet generated test logs'')])
                | S3Error e \<Rightarrow>
                    Inr (respond 500 [(''error'', JStr (''Error retrieving logs: '' @ e))]))))"

definition execution_arn_of :: "env \<Rightarrow> string \<Rightarrow> string" where
  "execution_arn_of en build_id =
     ''arn:aws:states:''
       @ (case aws_region en of None \<Rightarrow> ''us-east-1'' | Some r \<Rightarrow> r) @ '':''
       @ (case aws_account_id en of None \<Rightarrow> ''None'' | Some a \<Rightarrow> a)
       @ '':execution:bedrock-builder-workflow:'' @ build_id"

text \<open>
  The status check of \<^verbatim>\<open>cancel_build\<close>:
  \<^verbatim>\<open>current_status in ['completed', 'cancelled', 'failed']\<close>.
\<close>

definition cancel_refused :: "json \<Rightarrow> bool" where
  "cancel_refused current_status =
     (current_status \<in> set [JStr ''completed'', JStr ''cancelled'', JStr ''failed''])"

text \<open>
  The status as the message's f-string prints it; where the message is built, the
  status is one of the three strings of the check.
\<close>

definition status_text :: "json \<Rightarrow> string" where
  "status_text current_status = (case current_status of JStr s \<Rightarrow> s | _ \<Rightarrow> [])"

text \<open>
  \<^verbatim>\<open>cancel_build\<close>. Its update stands inside the \<^verbatim>\<open>try\<close>; the expression is
  \<^verbatim>\<open>SET #status = :status, updated_at = :updated_at\<close>.
\<close>

definition cancel_build :: "env \<Rightarrow> event \<Rightarrow> world \<Rightarrow> (py_exn + response) \<times> world" where
  "cancel_build en ev w =
     (case second_last (split_on CHR ''/'' (path ev)) of
        Inl e \<Rightarrow> (Inl e, w)
      | Inr build_id \<Rightarrow>
          (case get_item (tbl w) build_id of
             None \<Rightarrow> (Inr (respond 404 [(''error'', JStr ''Build not found'')]), w)
           | Some build \<Rightarrow>
               (let current_status = dict_get build ''status'' (JStr ''unknown'')
                in if cancel_refused current_status
                   then (Inr (respond 400
                           [(''error'', JStr ''Build cannot be cancelled''),
                            (''message'', JStr (''Build is already in ''
                                @ status_text current_status @ '' state''))]), w)
                   else
                     (let execution_arn = execution_arn_of en build_id;
                          w1 = note_effect (StopExecution execution_arn) w
                      in case stop_execution en execution_arn of
                           Stopped \<Rightarrow>
                             (case do_update_item en build_id [(''#status'', ''status'')]
                                     [(''#status'', JStr ''cancelled''),
                                      (''updated_at'', JStr (utcnow en))] w1 of
                                (Some x, w2) \<Rightarrow>
                                  (Inr (respond 500
                                     [(''error'', JStr (''Error cancelling build: ''
                                         @ exn_text en x))]), w2)
                              | (None, w2) \<Rightarrow>
                                  (Inr (respond 200
                                     [(''build_id'', JStr build_id),
                                      (''status'', JStr ''cancelled''),
                                      (''message'', JStr ''Build cancelled successfully'')]), w2))
                         | ExecutionDoesNotExist \<Rightarrow>
                             (Inr (respond 400
                                [(''error'', JStr ''Cannot cancel build''),
                                 (''message'', JStr
                                    ''Step Functions execution not found or already completed'')]),
                              w1)
                         | StopError e \<Rightarrow>
                             (Inr (respond 500
                                [(''error'', JStr (''Error cancelling build: '' @ e))]), w1)))))"

text \<open>
  \<^verbatim>\<open>lambda_handler\<close>: the routes by path and method, and the \<^verbatim>\<open>except\<close> clause that
  turns every exception of an operation into the response 500 with its text.
\<close>

definition starts_with :: "string \<Rightarrow> string \<Rightarrow> bool" where
  "starts_with s p = (take (length p) s = p)"

fun contains :: "string \<Rightarrow> string \<Rightarrow> bool" where
  "contains [] p = (p = [])"
| "contains (x # xs) p = (starts_with (x # xs) p \<or> contains xs p)"

definition lambda_handler :: "env \<Rightarrow> event \<Rightarrow> world \<Rightarrow> response \<times> world" where
  "lambda_handler en ev w =
     (let method = httpMethod ev;
          result =
            (if path ev = ''/builds'' \<and> method = ''GET'' then (list_builds ev w, w)
             else if path ev = ''/build'' \<and> method = ''POST'' then start_build en ev w
             else if starts_with (path ev) ''/build/'' \<and> method = ''GET''
               then (if contains (path ev) ''/logs'' then (get_build_logs en ev w, w)
                     else (Inr (get_build_status (last (split_on CHR ''/'' (path ev))) w), w))
             else if starts_with (path ev) ''/build/'' \<and> method = ''POST''
                       \<and> contains (path ev) ''/cancel''
               then cancel_build en ev w
             else (Inr (respond 404 [(''error'', JStr ''Not found'')]), w))
      in case result of
           (Inl e, w') \<Rightarrow> (respond 500 [(''error'', JStr (exn_text en e))], w')
         | (Inr r, w') \<Rightarrow> (r, w'))"

section \<open>The workflow state machine\<close>

text \<open>
  The Step Functions definition of \<^verbatim>\<open>cdk/lib/step-functions-stack.ts\<close>. The states
  carry the source's names; the two Choice states are \<^verbatim>\<open>TestsPassed?\<close> and
  \<^verbatim>\<open>MaxIterationsReached?\<close>.
\<close>

datatype state_name =
    Scout
  | Architect
  | PrepareParallelBuilders
  | ParallelBuilders
  | Tester
  | TestsPassed
  | MaxIterationsReached
  | Deployer
  | BuildSucceeded
  | TesterFailed
  | BuildFailed

text \<open>
  What the Lambda functions hand back, after each task's \<^verbatim>\<open>resultSelector\<close>: the
  envelope \<^verbatim>\<open>{statusCode, body}\<close>, the Tester's body with the fields the Choice states
  read, the splitter's task list, and a builder's \<^verbatim>\<open>{file_path, status}\<close>.
\<close>

record tester_body =
  tests_passed :: bool
  iteration :: int
  error :: string

type_synonym tester_result = "tester_body lambda_result"

record file_task =
  file_path :: string
  file_specification :: string
  language :: string

record build_task_list =
  tasks :: "file_task list"
  total_files :: int

type_synonym builder_result = "string \<times> string"

text \<open>
  The execution's data: the input \<^verbatim>\<open>start_build\<close> passed, and the result each state
  stored at its \<^verbatim>\<open>resultPath\<close>.
\<close>

record exec_data =
  input :: dict
  scout_result :: "json lambda_result option"
  architect_result :: "json lambda_result option"
  build_tasks :: "build_task_list option"
  builder_results :: "builder_result list option"
  tester_result :: "tester_result option"
  deployer_result :: "json lambda_result option"

definition initial_data :: "dict \<Rightarrow> exec_data" where
  "initial_data inp =
     \<lparr>input = inp, scout_result = None, architect_result = None, build_tasks = None,
      builder_results = None, tester_result = None, deployer_result = None\<rparr>"

text \<open>
  A task's payload, built from the data by its paths (\<^verbatim>\<open>'build_id.$': '$.build_id'\<close>);
  a path that the data does not have yields no payload.
\<close>

definition select_paths :: "string list \<Rightarrow> dict \<Rightarrow> dict option" where
  "select_paths ks d =
     (if list_all (\<lambda>k. map_of d k \<noteq> None) ks
      then Some (map (\<lambda>k. (k, dict_get d k JNull)) ks) else None)"

definition scout_payload :: "exec_data \<Rightarrow> dict option" where
  "scout_payload d = select_paths [''build_id'', ''task'', ''mode''] (input d)"

definition architect_payload :: "exec_data \<Rightarrow> dict option" where
  "architect_payload d = select_paths [''build_id''] (input d)"

definition orchestrator_payload :: "exec_data \<Rightarrow> dict option" where
  "orchestrator_payload d =
     map_option (\<lambda>p. p @ [(''action'', JStr ''prepare_parallel_builds'')])
       (select_paths [''build_id''] (input d))"

definition tester_payload :: "exec_data \<Rightarrow> dict option" where
  "tester_payload d = select_paths [''build_id''] (input d)"

definition deployer_payload :: "exec_data \<Rightarrow> dict option" where
  "deployer_payload d =
     map_option (\<lambda>p. p @ [(''test_result'', JStr ''PASSED'')])
       (select_paths [''build_id''] (input d))"

text \<open>
  The Map state \<^verbatim>\<open>ParallelBuilders\<close>: its \<^verbatim>\<open>parameters\<close> make one iteration input per
  item of \<^verbatim>\<open>$.build_tasks.tasks\<close>, and the iterator \<^verbatim>\<open>BuildSingleFile\<close> makes the
  builder's payload from it.
\<close>

definition maxConcurrency :: nat where
  "maxConcurrency = 6"

definition builder_payload :: "json \<Rightarrow> file_task \<Rightarrow> dict" where
  "builder_payload build_id ft =
     [(''build_id'', build_id),
      (''file_path'', JStr (file_path ft)),
      (''specification'', JStr (file_specification ft)),
      (''language'', JStr (language ft)),
      (''parallel_mode'', JBool True)]"

definition builder_payloads :: "exec_data \<Rightarrow> dict list option" where
  "builder_payloads d =
     (case (map_of (input d) ''build_id'', build_tasks d) of
        (Some b, Some bt) \<Rightarrow> Some (map (builder_payload b) (tasks bt))
      | _ \<Rightarrow> None)"

text \<open>The two Choice states: the first rule that matches gives the next state.\<close>

definition testsPassed :: "tester_result \<Rightarrow> state_name" where
  "testsPassed r =
     (if statusCode r = 200 \<and> tests_passed (body r) = True then Deployer
      else if statusCode r = 500 then TesterFailed
      else MaxIterationsReached)"

definition maxIterationsReached :: "tester_result \<Rightarrow> state_name" where
  "maxIterationsReached r = (if iteration (body r) \<ge> 3 then BuildFailed else Architect)"

text \<open>
  The Lambda functions are outside the workflow: each is given by what it hands back
  for a payload (or the error it raises, \<open>Inl\<close>), in the pass of the self-healing
  loop numbered by the first argument, since the functions read and write the build
  table between the passes. Retries of service exceptions happen inside one
  invocation here. No state has a Catch, so an error of a task ends the execution.
\<close>

record lambdas =
  scoutFunction :: "dict \<Rightarrow> string + json lambda_result"
  architectFunction :: "nat \<Rightarrow> dict \<Rightarrow> string + json lambda_result"
  orchestratorFunction :: "nat \<Rightarrow> dict \<Rightarrow> string + build_task_list"
  builderFunction :: "nat \<Rightarrow> dict \<Rightarrow> string + builder_result"
  testerFunction :: "nat \<Rightarrow> dict \<Rightarrow> string + tester_result"
  deployerFunction :: "dict \<Rightarrow> string + json lambda_result"

datatype outcome =
    Succeeded
  | Failed string

datatype step_result =
    Goto state_name exec_data
  | Ended outcome

text \<open>
  A Task state: build the payload, invoke the function, store the result, go on to
  the next state of the chain.
\<close>

definition run_task ::
  "dict option \<Rightarrow> (dict \<Rightarrow> string + 'r) \<Rightarrow> ('r \<Rightarrow> exec_data) \<Rightarrow> state_name \<Rightarrow> step_result" where
  "run_task payload f store nxt =
     (case payload of
        None \<Rightarrow> Ended (Failed ''States.Runtime'')
      | Some p \<Rightarrow>
          (case f p of
             Inl e \<Rightarrow> Ended (Failed e)
           | Inr r \<Rightarrow> Goto nxt (store r)))"

text \<open>
  The Map state as the chain sees it: the results of all iterations in the order of
  the items, or the failure of an iteration (the first in the order of the items).
\<close>

fun collect :: "(string + 'r) list \<Rightarrow> string + 'r list" where
  "collect [] = Inr []"
| "collect (Inl e # xs) = Inl e"
| "collect (Inr r # xs) = (case collect xs of Inl e \<Rightarrow> Inl e | Inr rs \<Rightarrow> Inr (r # rs))"

definition run_map :: "lambdas \<Rightarrow> nat \<Rightarrow> exec_data \<Rightarrow> step_result" where
  "run_map L n d =
     (case builder_payloads d of
        None \<Rightarrow> Ended (Failed ''States.Runtime'')
      | Some ps \<Rightarrow>
          (case collect (map (builderFunction L n) ps) of
             Inl e \<Rightarrow> Ended (Failed e)
           | Inr rs \<Rightarrow> Goto Tester (d\<lparr>builder_results := Some rs\<rparr>)))"

fun step :: "lambdas \<Rightarrow> nat \<Rightarrow> state_name \<Rightarrow> exec_data \<Rightarrow> step_result" where
  "step L n Scout d =
     run_task (scout_payload d) (scoutFunction L) (\<lambda>r. d\<lparr>scout_result := Some r\<rparr>) Architect"
| "step L n Architect d =
     run_task (architect_payload d) (architectFunction L n)
       (\<lambda>r. d\<lparr>architect_result := Some r\<rparr>) PrepareParallelBuilders"
| "step L n PrepareParallelBuilders d =
     run_task (orchestrator_payload d) (orchestratorFunction L n)
       (\<lambda>r. d\<lparr>build_tasks := Some r\<rparr>) ParallelBuilders"
| "step L n ParallelBuilders d = run_map L n d"
| "step L n Tester d =
     run_task (tester_payload d) (testerFunction L n)
       (\<lambda>r. d\<lparr>tester_result := Some r\<rparr>) TestsPassed"
| "step L n TestsPassed d =
     (case tester_result d of
        None \<Rightarrow> Ended (Failed ''States.Runtime'')
      | Some r \<Rightarrow> Goto (testsPassed r) d)"
| "step L n MaxIterationsReached d =
     (case tester_result d of
        None \<Rightarrow> Ended (Failed ''States.Runtime'')
      | Some r \<Rightarrow> Goto (maxIterationsReached r) d)"
| "step L n Deployer d =
     run_task (deployer_payload d) (deployerFunction L)
       (\<lambda>r. d\<lparr>deployer_result := Some r\<rparr>) BuildSucceeded"
| "step L n BuildSucceeded d = Ended Succeeded"
| "step L n TesterFailed d = Ended (Failed ''TesterLambdaError'')"
| "step L n BuildFailed d = Ended (Failed ''MaxIterationsReached'')"

text \<open>The payload a state invokes its Lambda function with, for the trace.\<close>

fun invoked_with :: "state_name \<Rightarrow> exec_data \<Rightarrow> dict option" where
  "invoked_with Scout d = scout_payload d"
| "invoked_with Architect d = architect_payload d"
| "invoked_with PrepareParallelBuilders d = orchestrator_payload d"
| "invoked_with Tester d = tester_payload d"
| "invoked_with Deployer d = deployer_payload d"
| "invoked_with _ d = None"

text \<open>
  An execution: the states entered, each with the payload of its invocation, and the
  outcome, \<open>None\<close> while the execution has not ended within the given number of
  steps (the self-healing loop goes on for as long as the Tester reports failed tests
  with an iteration below the bound). The pass number grows when the loop goes back
  to \<^verbatim>\<open>Architect\<close>.
\<close>

fun run ::
  "lambdas \<Rightarrow> nat \<Rightarrow> nat \<Rightarrow> state_name \<Rightarrow> exec_data
     \<Rightarrow> (state_name \<times> dict option) list \<times> outcome option" where
  "run L 0 n s d = ([], None)"
| "run L (Suc fuel) n s d =
     (case step L n s d of
        Ended out \<Rightarrow> ([(s, invoked_with s d)], Some out)
      | Goto s' d' \<Rightarrow>
          (case run L fuel (if s = MaxIterationsReached \<and> s' = Architect then Suc n else n) s' d' of
             (tr, out) \<Rightarrow> ((s, invoked_with s d) # tr, out)))"

definition execute ::
  "lambdas \<Rightarrow> nat \<Rightarrow> dict \<Rightarrow> (state_name \<times> dict option) list \<times> outcome option" where
  "execute L fuel inp = run L fuel 0 Scout (initial_data inp)"

section \<open>Sample inputs\<close>

text \<open>
  Concrete environments, requests, tables and Lambda functions, for the theorems that
  evaluate the handler and the workflow at one input.
\<close>

fun sample_exn_text :: "py_exn \<Rightarrow> string" where
  "sample_exn_text TypeError = ''the JSON object must be str, bytes or bytearray, not NoneType''"
| "sample_exn_text JSONDecodeError = ''Expecting value: line 1 column 1 (char 0)''"
| "sample_exn_text AttributeError = ''object has no attribute get''"
| "sample_exn_text IndexError = ''list index out of range''"
| "sample_exn_text DecimalException = ''decimal.Rounded''"
| "sample_exn_text ClientError = ''An error occurred when calling the operation''"
| "sample_exn_text ValidationException =
     ''An error occurred (ValidationException) when calling the UpdateItem operation: Invalid UpdateExpression: Attribute name is a reserved keyword; reserved keyword: error''"

definition sample_env :: "(string + string) \<Rightarrow> stop_outcome \<Rightarrow> env" where
  "sample_env started stopped =
     \<lparr>uuid4 = ''b1'', utcnow = ''2024-05-01T10:00:00'',
      aws_region = Some ''us-east-1'', aws_account_id = Some ''123456789012'',
      start_execution = (\<lambda>name inp. started),
      stop_execution = (\<lambda>arn. stopped),
      get_object = (\<lambda>key. NoSuchKey),
      exn_text = sample_exn_text,
      table_fault = (\<lambda>call. None)\<rparr>"

definition post_build :: "dict \<Rightarrow> event" where
  "post_build bdy =
     \<lparr>path = ''/build'', httpMethod = ''POST'', ev_body = BodyJson (JObj bdy),
      queryStringParameters = None\<rparr>"

definition empty_world :: world where
  "empty_world = \<lparr>tbl = [], log = []\<rparr>"

definition cancel_request :: "string \<Rightarrow> event" where
  "cancel_request build_id =
     \<lparr>path = ''/build/'' @ build_id @ ''/cancel'', httpMethod = ''POST'', ev_body = BodyNotText,
      queryStringParameters = None\<rparr>"

definition stored_build :: "string \<Rightarrow> string \<Rightarrow> string \<Rightarrow> string \<times> dict" where
  "stored_build build_id status created =
     (build_id,
      [(''build_id'', JStr build_id),
       (''task'', JStr ''Build a hello-world script''),
       (''mode'', JStr ''new_project''),
       (''status'', JStr status),
       (''current_iteration'', JInt 1),
       (''max_iterations'', JInt 3),
       (''created_at'', JStr created),
       (''updated_at'', JStr created)])"

definition sample_world :: world where
  "sample_world =
     \<lparr>tbl = [stored_build ''b7'' ''passed'' ''2024-04-30T09:00:00'',
             stored_build ''b3'' ''testing'' ''2024-04-30T11:00:00'',
             stored_build ''b9'' ''passed'' ''2024-04-30T10:00:00''],
      log = []\<rparr>"

definition sample_lambdas :: "(nat \<Rightarrow> tester_result) \<Rightarrow> lambdas" where
  "sample_lambdas tester =
     \<lparr>scoutFunction = (\<lambda>p. Inr \<lparr>statusCode = 200, body = JStr ''requirements''\<rparr>),
      architectFunction = (\<lambda>n p. Inr \<lparr>statusCode = 200, body = JStr ''design''\<rparr>),
      orchestratorFunction = (\<lambda>n p. Inr
         \<lparr>tasks = [\<lparr>file_path = ''hello.py'', file_specification = ''print a greeting'',
                    language = ''python''\<rparr>],
          total_files = 1\<rparr>),
      builderFunction = (\<lambda>n p. Inr (''hello.py'', ''success'')),
      testerFunction = (\<lambda>n p. Inr (tester n)),
      deployerFunction = (\<lambda>p. Inr \<lparr>statusCode = 200, body = JStr ''deployed''\<rparr>)\<rparr>"

definition tester_says :: "int \<Rightarrow> bool \<Rightarrow> nat \<Rightarrow> tester_result" where
  "tester_says code passed n =
     \<lparr>statusCode = code,
      body = \<lparr>tests_passed = passed, iteration = int n + 1, error = ''tests did not run''\<rparr>\<rparr>"

definition hello_input :: "int \<Rightarrow> dict" where
  "hello_input max_iterations =
     execution_input ''b1'' (JStr ''Build a hello-world script'') (JStr ''new_project'')
       (JInt max_iterations)"

section \<open>The table and the handler: auxiliary facts\<close>

lemma do_put_item_accepted:
  assumes "fst (do_put_item en item w) = None" and "str_attr ''build_id'' item = Some k"
  shows "do_put_item en item w
           = (None, \<lparr>tbl = AList.update k item (tbl w), log = log w @ [PutItem item]\<rparr>)"
  using assms
  by (simp add: do_put_item_def put_item_def note_effect_def Let_def
      split: option.splits sum.splits)

lemma do_put_item_raised:
  assumes "fst (do_put_item en item w) = Some x"
  shows "do_put_item en item w = (Some x, \<lparr>tbl = tbl w, log = log w @ [PutItem item]\<rparr>)"
  using assms
  by (simp add: do_put_item_def put_item_def note_effect_def Let_def
      split: option.splits sum.splits)

lemma str_attr_new_item: "str_attr ''build_id'' (new_item b t m mi ts) = Some b"
  by (simp add: new_item_def)

lemma do_put_item_storable:
  assumes "serialize_error t = None" and "serialize_error m = None"
    and "serialize_error mi = None"
    and "table_fault en (PutItem (new_item b t m mi ts)) = None"
  shows "fst (do_put_item en (new_item b t m mi ts) w) = None"
  using assms
  by (simp add: do_put_item_def put_item_def note_effect_def Let_def str_attr_new_item)
     (simp add: new_item_def)

lemma update_item_cancelled:
  "update_item k [(''#status'', ''status'')]
       [(''#status'', JStr a), (''updated_at'', JStr b)] t
     = Inr (AList.update k
              (set_attrs [(''status'', JStr a), (''updated_at'', JStr b)]
                 (case map_of t k of None \<Rightarrow> [(''build_id'', JStr k)] | Some item \<Rightarrow> item)) t)"
  by (simp add: update_item_def attr_name_def reserved_words_def)

lemma update_item_error_rejected:
  "update_item k [(''#status'', ''status'')]
       [(''#status'', JStr a), (''error'', JStr b)] t
     = Inl ValidationException"
  by (simp add: update_item_def attr_name_def reserved_words_def)

lemma map_of_set_attrs2:
  "map_of (set_attrs [(a, x), (b, y)] item) = (map_of item)(a \<mapsto> x, b \<mapsto> y)"
  by (simp add: set_attrs_def update_conv')

lemma start_build_rejects:
  assumes "loads_body ev = Inr (JObj bdy)" and "\<not> truthy (dict_get bdy ''task'' JNull)"
  shows "start_build en ev w = (Inr (respond 400 [(''error'', JStr ''task is required'')]), w)"
  using assms by (simp add: start_build_def)

lemma start_build_started:
  assumes "loads_body ev = Inr (JObj bdy)"
    and "truthy (dict_get bdy ''task'' JNull)"
    and "item = new_item (uuid4 en) (dict_get bdy ''task'' JNull)
                  (dict_get bdy ''mode'' (JStr ''new_project''))
                  (dict_get bdy ''max_iterations'' (JInt 3)) (utcnow en)"
    and "fst (do_put_item en item w) = None"
    and "inp = execution_input (uuid4 en) (dict_get bdy ''task'' JNull)
                  (dict_get bdy ''mode'' (JStr ''new_project''))
                  (dict_get bdy ''max_iterations'' (JInt 3))"
    and "start_execution en (uuid4 en) inp = Inr arn"
  shows "start_build en ev w =
           (Inr (respond 202
              [(''build_id'', JStr (uuid4 en)),
               (''execution_arn'', JStr arn),
               (''status'', JStr ''initiated''),
               (''message'', JStr ''Build started with parallel execution'')]),
            \<lparr>tbl = AList.update (uuid4 en) item (tbl w),
             log = log w @ [PutItem item, StartExecution (uuid4 en) inp]\<rparr>)"
proof -
  from assms(3) have "str_attr ''build_id'' item = Some (uuid4 en)"
    by (simp only: str_attr_new_item)
  from do_put_item_accepted [OF assms(4) this] assms show ?thesis
    by (simp add: start_build_def Let_def note_effect_def)
qed

lemma start_build_update_rejected:
  assumes "loads_body ev = Inr (JObj bdy)"
    and "truthy (dict_get bdy ''task'' JNull)"
    and "item = new_item (uuid4 en) (dict_get bdy ''task'' JNull)
                  (dict_get bdy ''mode'' (JStr ''new_project''))
                  (dict_get bdy ''max_iterations'' (JInt 3)) (utcnow en)"
    and "fst (do_put_item en item w) = None"
    and "inp = execution_input (uuid4 en) (dict_get bdy ''task'' JNull)
                  (dict_get bdy ''mode'' (JStr ''new_project''))
                  (dict_get bdy ''max_iterations'' (JInt 3))"
    and "start_execution en (uuid4 en) inp = Inl e"
  shows "start_build en ev w =
           (Inl ValidationException,
            \<lparr>tbl = AList.update (uuid4 en) item (tbl w),
             log = log w @ [PutItem item, StartExecution (uuid4 en) inp,
                            UpdateItem (uuid4 en)
                              [(''status'', JStr ''failed''),
                               (''error'', JStr (start_error_msg e))]]\<rparr>)"
proof -
  from assms(3) have "str_attr ''build_id'' item = Some (uuid4 en)"
    by (simp only: str_attr_new_item)
  from do_put_item_accepted [OF assms(4) this] assms show ?thesis
    by (simp add: start_build_def Let_def note_effect_def do_update_item_def
        update_item_error_rejected shown_target_def)
qed

lemma start_build_put_rejected:
  assumes "loads_body ev = Inr (JObj bdy)"
    and "truthy (dict_get bdy ''task'' JNull)"
    and "item = new_item (uuid4 en) (dict_get bdy ''task'' JNull)
                  (dict_get bdy ''mode'' (JStr ''new_project''))
                  (dict_get bdy ''max_iterations'' (JInt 3)) (utcnow en)"
    and "fst (do_put_item en item w) = Some x"
  shows "start_build en ev w = (Inl x, \<lparr>tbl = tbl w, log = log w @ [PutItem item]\<rparr>)"
  using do_put_item_raised [OF assms(4)] assms
  by (simp add: start_build_def Let_def)

lemma handler_start_build:
  assumes "path ev = ''/build''" and "httpMethod ev = ''POST''"
  shows "lambda_handler en ev w =
           (case start_build en ev w of
              (Inl e, w') \<Rightarrow> (respond 500 [(''error'', JStr (exn_text en e))], w')
            | (Inr r, w') \<Rightarrow> (r, w'))"
  using assms by (simp add: lambda_handler_def)

lemma start_build_same_fields:
  assumes "loads_body ev = Inr (JObj bdy)" and "loads_body ev' = Inr (JObj bdy')"
    and "dict_get bdy' ''task'' JNull = dict_get bdy ''task'' JNull"
    and "dict_get bdy' ''mode'' (JStr ''new_project'') = dict_get bdy ''mode'' (JStr ''new_project'')"
    and "dict_get bdy' ''max_iterations'' (JInt 3) = dict_get bdy ''max_iterations'' (JInt 3)"
  shows "start_build en ev' w = start_build en ev w"
  using assms by (simp add: start_build_def)

lemma dict_get_default_appended:
  "map_of d k = None \<Longrightarrow> dict_get (d @ [(k, v)]) k dflt = v"
  by (simp add: dict_get_def map_add_def)

lemma dict_get_other_appended:
  "k' \<noteq> k \<Longrightarrow> dict_get (d @ [(k, v)]) k' dflt = dict_get d k' dflt"
  by (simp add: dict_get_def map_add_def split: option.splits)

lemma start_build_stored_item:
  assumes b: "loads_body ev = Inr (JObj bdy)"
    and t: "truthy (dict_get bdy ''task'' JNull)"
    and i: "item = new_item (uuid4 en) (dict_get bdy ''task'' JNull)
                  (dict_get bdy ''mode'' (JStr ''new_project''))
                  (dict_get bdy ''max_iterations'' (JInt 3)) (utcnow en)"
    and s: "fst (do_put_item en item w) = None"
  shows "get_item (tbl (snd (start_build en ev w))) (uuid4 en) = Some item"
proof (cases "start_execution en (uuid4 en)
    (execution_input (uuid4 en) (dict_get bdy ''task'' JNull)
       (dict_get bdy ''mode'' (JStr ''new_project''))
       (dict_get bdy ''max_iterations'' (JInt 3)))")
  case (Inl e)
  show ?thesis
    by (simp add: start_build_update_rejected [OF b t i s refl Inl] get_item_def update_conv')
next
  case (Inr arn)
  show ?thesis
    by (simp add: start_build_started [OF b t i s refl Inr] get_item_def update_conv')
qed

lemma cancel_build_refuses:
  assumes "second_last (split_on CHR ''/'' (path ev)) = Inr build_id"
    and "get_item (tbl w) build_id = Some build"
    and "map_of build ''status'' = Some (JStr s)"
    and "s = ''completed'' \<or> s = ''cancelled'' \<or> s = ''failed''"
  shows "cancel_build en ev w =
           (Inr (respond 400
              [(''error'', JStr ''Build cannot be cancelled''),
               (''message'', JStr (''Build is already in '' @ s @ '' state''))]), w)"
  using assms
  by (auto simp add: cancel_build_def dict_get_def cancel_refused_def status_text_def)

lemma cancel_build_stops:
  assumes "second_last (split_on CHR ''/'' (path ev)) = Inr build_id"
    and "get_item (tbl w) build_id = Some build"
    and "\<not> cancel_refused (dict_get build ''status'' (JStr ''unknown''))"
    and "stop_execution en (execution_arn_of en build_id) = Stopped"
    and "upd = [(''status'', JStr ''cancelled''), (''updated_at'', JStr (utcnow en))]"
    and "table_fault en (UpdateItem build_id upd) = None"
  shows "cancel_build en ev w =
           (Inr (respond 200
              [(''build_id'', JStr build_id),
               (''status'', JStr ''cancelled''),
               (''message'', JStr ''Build cancelled successfully'')]),
            \<lparr>tbl = AList.update build_id (set_attrs upd build) (tbl w),
             log = log w @ [StopExecution (execution_arn_of en build_id), UpdateItem build_id upd]\<rparr>)"
  using assms
  by (simp add: cancel_build_def Let_def note_effect_def do_update_item_def
      update_item_cancelled shown_target_def get_item_def)

lemma start_build_issued_id_stored:
  assumes "fst (start_build en ev w) = Inr resp"
    and "body resp = JObj kvs"
    and "map_of kvs ''build_id'' = Some (JStr b)"
  shows "get_item (tbl (snd (start_build en ev w))) b \<noteq> None"
proof (cases "loads_body ev")
  case (Inl e)
  with assms show ?thesis by (simp add: start_build_def)
next
  case (Inr v)
  show ?thesis
  proof (cases v)
    case (JObj bdy)
    with Inr have b: "loads_body ev = Inr (JObj bdy)" by simp
    let ?item = "new_item (uuid4 en) (dict_get bdy ''task'' JNull)
        (dict_get bdy ''mode'' (JStr ''new_project''))
        (dict_get bdy ''max_iterations'' (JInt 3)) (utcnow en)"
    show ?thesis
    proof (cases "truthy (dict_get bdy ''task'' JNull)")
      case False
      from assms show ?thesis
        by (auto simp add: start_build_rejects [OF b False] respond_def)
    next
      case True
      show ?thesis
      proof (cases "fst (do_put_item en ?item w)")
        case (Some x)
        from assms show ?thesis
          by (simp add: start_build_put_rejected [OF b True refl Some])
      next
        case None
        show ?thesis
        proof (cases "start_execution en (uuid4 en)
            (execution_input (uuid4 en) (dict_get bdy ''task'' JNull)
               (dict_get bdy ''mode'' (JStr ''new_project''))
               (dict_get bdy ''max_iterations'' (JInt 3)))")
          case (Inl e)
          from assms show ?thesis
            by (simp add: start_build_update_rejected [OF b True refl None refl Inl])
        next
          case (Inr arn)
          from assms show ?thesis
            by (auto simp add: start_build_started [OF b True refl None refl Inr] respond_def
                get_item_def update_conv')
        qed
      qed
    qed
  qed (use Inr assms in \<open>simp_all add: start_build_def\<close>)
qed

lemma index_query_members:
  assumes "item \<in> set (index_query ix v fwd lim t)"
  shows "item \<in> snd ` set t \<and> str_attr (partitionKey ix) item = Some v
       \<and> str_attr (sortKey ix) item = Some (sort_value ix item)"
proof -
  from assms have "item \<in> set (filter (\<lambda>item. in_index ix item \<and> str_attr (partitionKey ix) item = Some v)
                   (map snd t))"
    by (auto simp add: index_query_def Let_def dest: in_set_takeD split: if_splits)
  then show ?thesis
    by (auto simp add: in_index_def sort_value_def)
qed

lemma index_query_descending:
  "sorted_wrt (\<lambda>a b. b \<le> a) (map (sort_value ix) (index_query ix v False lim t))"
proof -
  let ?hits = "filter (\<lambda>item. in_index ix item \<and> str_attr (partitionKey ix) item = Some v) (map snd t)"
  have "sorted (map (sort_value ix) (sort_key (sort_value ix) ?hits))"
    by (rule sorted_sort_key)
  then have "sorted_wrt (\<lambda>a b. b \<le> a) (rev (map (sort_value ix) (sort_key (sort_value ix) ?hits)))"
    by (simp add: sorted_wrt_rev)
  then have "sorted_wrt (\<lambda>a b. b \<le> a)
      (take lim (rev (map (sort_value ix) (sort_key (sort_value ix) ?hits))))"
    by (rule sorted_wrt_take)
  then show ?thesis
    by (simp add: index_query_def Let_def take_map rev_map)
qed

lemma index_query_length: "length (index_query ix v fwd lim t) \<le> lim"
  by (simp add: index_query_def Let_def)

lemma table_query_status_index:
  "table_query ''status-index'' v fwd lim t = Inr (index_query status_index v fwd lim t)"
  by (simp add: table_query_def table_indexes_def status_index_def)

lemmas payload_defs =
  scout_payload_def architect_payload_def orchestrator_payload_def tester_payload_def
  deployer_payload_def select_paths_def dict_get_def builder_payloads_def builder_payload_def

lemma tester_payload_build_id:
  "map_of (input d) ''build_id'' = Some b \<Longrightarrow> tester_payload d = Some [(''build_id'', b)]"
  by (simp add: tester_payload_def select_paths_def dict_get_def)


section \<open>The self-healing decision\<close>

text \<open>
  Claim C1. The decision after a failed test round is to compare the iteration the
  Tester reports with the build's own \<^verbatim>\<open>max_iterations\<close>, so that a build started with
  \<^verbatim>\<open>max_iterations = 1\<close> whose first test round fails never enters \<^verbatim>\<open>Architect\<close> a
  second time. The Choice state \<^verbatim>\<open>MaxIterationsReached?\<close> compares the iteration with
  the constant 3 and reads nothing of the input: the execution below, started with
  \<^verbatim>\<open>max_iterations = 1\<close>, whose Tester answers 200 with failed tests and iteration 1,
  goes back to \<^verbatim>\<open>Architect\<close>.
\<close>

theorem hello_world_build_architects_twice:
  "map fst (fst (execute (sample_lambdas (tester_says 200 False)) 8 (hello_input 1)))
     = [Scout, Architect, PrepareParallelBuilders, ParallelBuilders, Tester, TestsPassed,
        MaxIterationsReached, Architect]"
  by (simp add: execute_def sample_lambdas_def tester_says_def hello_input_def execution_input_def
      initial_data_def numeral_nat payload_defs run_task_def run_map_def
      testsPassed_def maxIterationsReached_def)

text \<open>
  For every execution the iteration check is against 3, and the data's input (where
  \<^verbatim>\<open>max_iterations\<close> is) has no part in it.
\<close>

lemma iteration_check_bound:
  assumes "tester_result d = Some r"
  shows "step L n MaxIterationsReached d =
           Goto (if 3 \<le> iteration (body r) then BuildFailed else Architect) d"
  using assms by (simp add: maxIterationsReached_def)

lemma iteration_check_ignores_input:
  "step L n MaxIterationsReached (d\<lparr>input := inp\<rparr>) =
     (case step L n MaxIterationsReached d of
        Goto s d' \<Rightarrow> Goto s (d'\<lparr>input := inp\<rparr>)
      | Ended out \<Rightarrow> Ended out)"
  by (simp split: option.splits)

text \<open>
  Claim C3, as the workflow has it. When the Tester's status code is 500, the build
  fails with \<^verbatim>\<open>TesterLambdaError\<close> whatever \<^verbatim>\<open>tests_passed\<close> and the iteration are: the
  execution goes from \<^verbatim>\<open>Tester\<close> through \<^verbatim>\<open>TestsPassed?\<close> to the Fail state
  \<^verbatim>\<open>TesterFailed\<close> and never enters \<^verbatim>\<open>MaxIterationsReached?\<close>.
\<close>

theorem tester_500_fails_build:
  assumes "map_of (input d) ''build_id'' = Some b"
    and "testerFunction L n [(''build_id'', b)] = Inr r"
    and "statusCode r = 500"
  shows "testsPassed r = TesterFailed
       \<and> run L (Suc (Suc (Suc fuel))) n Tester d =
           ([(Tester, Some [(''build_id'', b)]), (TestsPassed, None), (TesterFailed, None)],
            Some (Failed ''TesterLambdaError''))"
  using assms
  by (simp add: tester_payload_build_id run_task_def testsPassed_def)

theorem tester_500_fails_build_witness:
  "statusCode (tester_says 500 True 0) = 500
   \<and> testsPassed (tester_says 500 True 0) = TesterFailed
   \<and> run (sample_lambdas (tester_says 500 True)) 3 0 Tester (initial_data (hello_input 3)) =
         ([(Tester, Some [(''build_id'', JStr ''b1'')]), (TestsPassed, None), (TesterFailed, None)],
          Some (Failed ''TesterLambdaError''))"
proof -
  have b: "map_of (input (initial_data (hello_input 3))) ''build_id'' = Some (JStr ''b1'')"
    by (simp add: initial_data_def hello_input_def execution_input_def)
  have t: "testerFunction (sample_lambdas (tester_says 500 True)) 0 [(''build_id'', JStr ''b1'')]
             = Inr (tester_says 500 True 0)"
    by (simp add: sample_lambdas_def)
  have c: "statusCode (tester_says 500 True 0) = 500"
    by (simp add: tester_says_def)
  from c tester_500_fails_build [OF b t c, of 0] show ?thesis
    by (simp add: numeral_nat)
qed

text \<open>
  The claim as first stated covers every status code from 500 to 599. The rule of
  \<^verbatim>\<open>TestsPassed?\<close> is \<^verbatim>\<open>numberEquals(statusCode, 500)\<close>: with the status code 503
  the execution goes on to the iteration check, and from there back to \<^verbatim>\<open>Architect\<close>.
\<close>

theorem tester_503_counterexample:
  "(500::int) \<le> 503 \<and> (503::int) < 600
   \<and> run (sample_lambdas (tester_says 503 False)) 4 0 Tester (initial_data (hello_input 3))
       = ([(Tester, Some [(''build_id'', JStr ''b1'')]), (TestsPassed, None),
           (MaxIterationsReached, None), (Architect, Some [(''build_id'', JStr ''b1'')])], None)"
  by (simp add: sample_lambdas_def tester_says_def hello_input_def execution_input_def
      initial_data_def numeral_nat payload_defs run_task_def
      testsPassed_def maxIterationsReached_def)

section \<open>Deployment after a passed test round\<close>




section \<open>Starting a build\<close>

text \<open>
  Claim C7, as the handler has it. A start request (\<^verbatim>\<open>POST /build\<close>) whose event has no
  body key, or whose body decodes to a JSON object, and that has no \<^verbatim>\<open>task\<close>, is
  answered 400 \<^verbatim>\<open>task is required\<close> and leaves the world as it was: no item is
  written and no execution is started. A body object without \<^verbatim>\<open>mode\<close> is handled
  exactly as the same object with \<^verbatim>\<open>mode: new_project\<close>, and one without
  \<^verbatim>\<open>max_iterations\<close> as with \<^verbatim>\<open>max_iterations: 3\<close>; when the task is accepted and
  the put of the record does not raise, the stored record carries these defaults.
\<close>

theorem start_build_validation:
  assumes p: "path ev = ''/build''" and m: "httpMethod ev = ''POST''"
    and b: "loads_body ev = Inr (JObj bdy)"
  shows "(map_of bdy ''task'' = None \<longrightarrow>
            lambda_handler en ev w = (respond 400 [(''error'', JStr ''task is required'')], w))
       \<and> (map_of bdy ''mode'' = None \<longrightarrow>
            lambda_handler en ev w
              = lambda_handler en
                  (ev\<lparr>ev_body := BodyJson (JObj (bdy @ [(''mode'', JStr ''new_project'')]))\<rparr>) w)
       \<and> (map_of bdy ''max_iterations'' = None \<longrightarrow>
            lambda_handler en ev w
              = lambda_handler en
                  (ev\<lparr>ev_body := BodyJson (JObj (bdy @ [(''max_iterations'', JInt 3)]))\<rparr>) w)
       \<and> (truthy (dict_get bdy ''task'' JNull)
            \<and> fst (do_put_item en
                     (new_item (uuid4 en) (dict_get bdy ''task'' JNull)
                        (dict_get bdy ''mode'' (JStr ''new_project''))
                        (dict_get bdy ''max_iterations'' (JInt 3)) (utcnow en)) w) = None \<longrightarrow>
            (\<exists>stored.
               get_item (tbl (snd (lambda_handler en ev w))) (uuid4 en) = Some stored
             \<and> map_of stored ''task'' = Some (dict_get bdy ''task'' JNull)
             \<and> (map_of bdy ''mode'' = None \<longrightarrow>
                   map_of stored ''mode'' = Some (JStr ''new_project''))
             \<and> (map_of bdy ''max_iterations'' = None \<longrightarrow>
                   map_of stored ''max_iterations'' = Some (JInt 3))))"
proof (intro conjI impI)
  assume "map_of bdy ''task'' = None"
  then have "\<not> truthy (dict_get bdy ''task'' JNull)"
    by (simp add: dict_get_def)
  then show "lambda_handler en ev w = (respond 400 [(''error'', JStr ''task is required'')], w)"
    by (simp add: handler_start_build [OF p m] start_build_rejects [OF b])
next
  assume n: "map_of bdy ''mode'' = None"
  let ?ev = "ev\<lparr>ev_body := BodyJson (JObj (bdy @ [(''mode'', JStr ''new_project'')]))\<rparr>"
  have "start_build en ?ev w = start_build en ev w"
  proof (rule start_build_same_fields [OF b])
    show "loads_body ?ev = Inr (JObj (bdy @ [(''mode'', JStr ''new_project'')]))"
      by (simp add: loads_body_def)
    show "dict_get (bdy @ [(''mode'', JStr ''new_project'')]) ''mode'' (JStr ''new_project'')
        = dict_get bdy ''mode'' (JStr ''new_project'')"
      using n by (simp add: dict_get_default_appended) (simp add: dict_get_def)
  qed (simp_all add: dict_get_other_appended)
  with p m show "lambda_handler en ev w = lambda_handler en ?ev w"
    by (simp add: handler_start_build)
next
  assume n: "map_of bdy ''max_iterations'' = None"
  let ?ev = "ev\<lparr>ev_body := BodyJson (JObj (bdy @ [(''max_iterations'', JInt 3)]))\<rparr>"
  have "start_build en ?ev w = start_build en ev w"
  proof (rule start_build_same_fields [OF b])
    show "loads_body ?ev = Inr (JObj (bdy @ [(''max_iterations'', JInt 3)]))"
      by (simp add: loads_body_def)
    show "dict_get (bdy @ [(''max_iterations'', JInt 3)]) ''max_iterations'' (JInt 3)
        = dict_get bdy ''max_iterations'' (JInt 3)"
      using n by (simp add: dict_get_default_appended) (simp add: dict_get_def)
  qed (simp_all add: dict_get_other_appended)
  with p m show "lambda_handler en ev w = lambda_handler en ?ev w"
    by (simp add: handler_start_build)
next
  assume a: "truthy (dict_get bdy ''task'' JNull)
            \<and> fst (do_put_item en
                     (new_item (uuid4 en) (dict_get bdy ''task'' JNull)
                        (dict_get bdy ''mode'' (JStr ''new_project''))
                        (dict_get bdy ''max_iterations'' (JInt 3)) (utcnow en)) w) = None"
  define item where "item = new_item (uuid4 en) (dict_get bdy ''task'' JNull)
      (dict_get bdy ''mode'' (JStr ''new_project''))
      (dict_get bdy ''max_iterations'' (JInt 3)) (utcnow en)"
  from a have s: "fst (do_put_item en item w) = None"
    unfolding item_def by simp
  from a have t: "truthy (dict_get bdy ''task'' JNull)" by simp
  have "tbl (snd (lambda_handler en ev w)) = tbl (snd (start_build en ev w))"
    by (simp add: handler_start_build [OF p m] split: prod.splits sum.splits)
  then have g: "get_item (tbl (snd (lambda_handler en ev w))) (uuid4 en) = Some item"
    by (simp add: start_build_stored_item [OF b t item_def s])
  show "\<exists>stored.
      get_item (tbl (snd (lambda_handler en ev w))) (uuid4 en) = Some stored
    \<and> map_of stored ''task'' = Some (dict_get bdy ''task'' JNull)
    \<and> (map_of bdy ''mode'' = None \<longrightarrow> map_of stored ''mode'' = Some (JStr ''new_project''))
    \<and> (map_of bdy ''max_iterations'' = None \<longrightarrow>
          map_of stored ''max_iterations'' = Some (JInt 3))"
    by (rule exI [of _ item]) (simp add: g, simp add: item_def new_item_def dict_get_def)
qed

theorem start_build_validation_witness:
  "path (post_build [(''mode'', JStr ''existing_project'')]) = ''/build''
   \<and> httpMethod (post_build [(''mode'', JStr ''existing_project'')]) = ''POST''
   \<and> lambda_handler (sample_env (Inr ''arn:1'') Stopped)
         (post_build [(''mode'', JStr ''existing_project'')]) empty_world
       = (respond 400 [(''error'', JStr ''task is required'')], empty_world)
   \<and> lambda_handler (sample_env (Inr ''arn:1'') Stopped)
         (post_build [(''task'', JStr ''Build a hello-world script'')]) empty_world
       = lambda_handler (sample_env (Inr ''arn:1'') Stopped)
           (post_build [(''task'', JStr ''Build a hello-world script''),
                        (''mode'', JStr ''new_project'')]) empty_world
   \<and> lambda_handler (sample_env (Inr ''arn:1'') Stopped)
         (post_build [(''task'', JStr ''Build a hello-world script'')]) empty_world
       = lambda_handler (sample_env (Inr ''arn:1'') Stopped)
           (post_build [(''task'', JStr ''Build a hello-world script''),
                        (''max_iterations'', JInt 3)]) empty_world
   \<and> (\<exists>stored.
         get_item (tbl (snd (lambda_handler (sample_env (Inr ''arn:1'') Stopped)
            (post_build [(''task'', JStr ''Build a hello-world script'')]) empty_world))) ''b1''
           = Some stored
       \<and> map_of stored ''mode'' = Some (JStr ''new_project'')
       \<and> map_of stored ''max_iterations'' = Some (JInt 3))"
proof -
  let ?en = "sample_env (Inr ''arn:1'') Stopped"
  let ?no = "post_build [(''mode'', JStr ''existing_project'')]"
  let ?ok = "post_build [(''task'', JStr ''Build a hello-world script'')]"
  have p1: "path ?no = ''/build''" and m1: "httpMethod ?no = ''POST''"
    and b1: "loads_body ?no = Inr (JObj [(''mode'', JStr ''existing_project'')])"
    by (simp_all add: post_build_def loads_body_def)
  have p2: "path ?ok = ''/build''" and m2: "httpMethod ?ok = ''POST''"
    and b2: "loads_body ?ok = Inr (JObj [(''task'', JStr ''Build a hello-world script'')])"
    by (simp_all add: post_build_def loads_body_def)
  have u: "(post_build bdy)\<lparr>ev_body := BodyJson (JObj bdy')\<rparr> = post_build bdy'" for bdy bdy'
    by (simp add: post_build_def)
  have i: "uuid4 ?en = ''b1''"
    by (simp add: sample_env_def)
  note no = start_build_validation [OF p1 m1 b1, of ?en empty_world]
  note ok = start_build_validation [OF p2 m2 b2, of ?en empty_world]
  from no [THEN conjunct1] have c1: "lambda_handler ?en ?no empty_world
      = (respond 400 [(''error'', JStr ''task is required'')], empty_world)"
    by simp
  from ok [THEN conjunct2, THEN conjunct1] have c2: "lambda_handler ?en ?ok empty_world
      = lambda_handler ?en
          (post_build [(''task'', JStr ''Build a hello-world script''),
                       (''mode'', JStr ''new_project'')]) empty_world"
    by (simp add: u)
  from ok [THEN conjunct2, THEN conjunct2, THEN conjunct1]
  have c3: "lambda_handler ?en ?ok empty_world
      = lambda_handler ?en
          (post_build [(''task'', JStr ''Build a hello-world script''),
                       (''max_iterations'', JInt 3)]) empty_world"
    by (simp add: u)
  from ok [THEN conjunct2, THEN conjunct2, THEN conjunct2] have c4: "\<exists>stored.
      get_item (tbl (snd (lambda_handler ?en ?ok empty_world))) ''b1'' = Some stored
    \<and> map_of stored ''mode'' = Some (JStr ''new_project'')
    \<and> map_of stored ''max_iterations'' = Some (JInt 3)"
    by (auto simp add: dict_get_def i do_put_item_storable sample_env_def)
  from p1 m1 c1 c2 c3 c4 show ?thesis
    by (intro conjI)
qed

text \<open>
  The claim as first stated answers 400 to every start request without a task. A
  request without a body reaches the handler with the body \<^verbatim>\<open>null\<close>, on which
  \<^verbatim>\<open>json.loads\<close> raises, and on a body that decodes to a list \<^verbatim>\<open>body.get\<close> raises;
  the \<^verbatim>\<open>except\<close> clause of \<^verbatim>\<open>lambda_handler\<close> answers both with 500. No item is
  written and no execution is started there either.
\<close>

theorem start_build_without_body_counterexample:
  "lambda_handler (sample_env (Inr ''arn:1'') Stopped)
     \<lparr>path = ''/build'', httpMethod = ''POST'', ev_body = BodyNotText,
      queryStringParameters = None\<rparr> empty_world
   = (\<lparr>statusCode = 500,
       body = JObj [(''error'',
                JStr ''the JSON object must be str, bytes or bytearray, not NoneType'')]\<rparr>,
      empty_world)
   \<and> lambda_handler (sample_env (Inr ''arn:1'') Stopped)
     \<lparr>path = ''/build'', httpMethod = ''POST'', ev_body = BodyJson (JArr []),
      queryStringParameters = None\<rparr> empty_world
   = (\<lparr>statusCode = 500,
       body = JObj [(''error'', JStr ''object has no attribute get'')]\<rparr>,
      empty_world)"
  by (simp add: lambda_handler_def start_build_def loads_body_def sample_env_def respond_def)

text \<open>
  No request without an accepted task changes the world, whatever its body is: also
  where \<^verbatim>\<open>json.loads\<close> or \<^verbatim>\<open>body.get\<close> raises.
\<close>

lemma start_build_invalid_no_state:
  assumes "\<forall>bdy. loads_body ev = Inr (JObj bdy) \<longrightarrow> \<not> truthy (dict_get bdy ''task'' JNull)"
  shows "snd (start_build en ev w) = w"
proof (cases "loads_body ev")
  case (Inl e)
  then show ?thesis by (simp add: start_build_def)
next
  case (Inr v)
  with assms show ?thesis
    by (cases v) (simp_all add: start_build_def)
qed

text \<open>
  Claim C10. For a start request with an accepted task, the record is to be written
  before the execution is started, and if starting it raises, the record is to be
  updated to \<^verbatim>\<open>failed\<close> with the error message while the caller receives a 500 that
  carries the \<^verbatim>\<open>build_id\<close>. The record is put first. The update of the failure path
  writes \<^verbatim>\<open>error\<close> without a placeholder, a reserved word, so DynamoDB rejects it:
  below, \<^verbatim>\<open>start_execution\<close> raises, the response is the 500 of \<^verbatim>\<open>lambda_handler\<close>
  with the text of the validation error and no \<^verbatim>\<open>build_id\<close>, and the stored status
  is still \<^verbatim>\<open>initiated\<close>.
\<close>

theorem start_failure_answers_without_build_id:
  "fst (lambda_handler (sample_env (Inl ''ExecutionLimitExceeded'') Stopped)
          (post_build [(''task'', JStr ''Build a hello-world script'')]) empty_world)
     = \<lparr>statusCode = 500,
         body = JObj [(''error'',
                  JStr ''An error occurred (ValidationException) when calling the UpdateItem operation: Invalid UpdateExpression: Attribute name is a reserved keyword; reserved keyword: error'')]\<rparr>
   \<and> map_option (\<lambda>item. map_of item ''status'')
         (get_item (tbl (snd (lambda_handler (sample_env (Inl ''ExecutionLimitExceeded'') Stopped)
            (post_build [(''task'', JStr ''Build a hello-world script'')]) empty_world))) ''b1'')
       = Some (Some (JStr ''initiated''))"
  by (simp add: lambda_handler_def start_build_def loads_body_def post_build_def dict_get_def
      sample_env_def empty_world_def new_item_def execution_input_def do_put_item_def
      note_effect_def do_update_item_def put_item_def update_item_def attr_name_def
      reserved_words_def shown_target_def start_error_msg_def Let_def respond_def get_item_def)

text \<open>
  The same for every request and environment: \<open>start_build_update_rejected\<close>. A
  response of \<^verbatim>\<open>start_build\<close> that carries a \<^verbatim>\<open>build_id\<close> has an item in the table,
  for every request.
\<close>

lemma start_build_ids_have_records:
  "\<forall>resp kvs b. fst (start_build en ev w) = Inr resp \<and> body resp = JObj kvs
       \<and> map_of kvs ''build_id'' = Some (JStr b)
     \<longrightarrow> get_item (tbl (snd (start_build en ev w))) b \<noteq> None"
  using start_build_issued_id_stored by blast

section \<open>The field \<^verbatim>\<open>updated_at\<close>\<close>


text \<open>The update of \<^verbatim>\<open>cancel_build\<close> stores the time it read.\<close>

lemma cancel_build_refreshes_updated_at:
  assumes "second_last (split_on CHR ''/'' (path ev)) = Inr build_id"
    and "get_item (tbl w) build_id = Some build"
    and "\<not> cancel_refused (dict_get build ''status'' (JStr ''unknown''))"
    and "stop_execution en (execution_arn_of en build_id) = Stopped"
    and "table_fault en (UpdateItem build_id
           [(''status'', JStr ''cancelled''), (''updated_at'', JStr (utcnow en))]) = None"
  shows "\<exists>stored. get_item (tbl (snd (cancel_build en ev w))) build_id = Some stored
       \<and> map_of stored ''status'' = Some (JStr ''cancelled'')
       \<and> map_of stored ''updated_at'' = Some (JStr (utcnow en))"
  by (simp add: cancel_build_stops [OF assms(1-4) refl assms(5)] get_item_def update_conv'
      map_of_set_attrs2)

section \<open>Cancelling a build\<close>

text \<open>
  Claim C2. Cancelling a build whose stored status is terminal is to be answered 400
  with the status left as it is. The check of \<^verbatim>\<open>cancel_build\<close> lists \<^verbatim>\<open>completed\<close>,
  \<^verbatim>\<open>cancelled\<close> and \<^verbatim>\<open>failed\<close>; the status the builds reach is \<^verbatim>\<open>passed\<close>. Below, a
  build whose status is \<^verbatim>\<open>passed\<close> is cancelled: the response is 200 and the stored
  status is overwritten with \<^verbatim>\<open>cancelled\<close>.
\<close>

theorem cancel_passed_build_overwrites:
  "cancel_build (sample_env (Inr ''arn:1'') Stopped) (cancel_request ''b9'')
      \<lparr>tbl = [stored_build ''b9'' ''passed'' ''2024-04-30T10:00:00''], log = []\<rparr>
   = (Inr (respond 200
        [(''build_id'', JStr ''b9''),
         (''status'', JStr ''cancelled''),
         (''message'', JStr ''Build cancelled successfully'')]),
      \<lparr>tbl = [(''b9'',
          [(''build_id'', JStr ''b9''),
           (''task'', JStr ''Build a hello-world script''),
           (''mode'', JStr ''new_project''),
           (''status'', JStr ''cancelled''),
           (''current_iteration'', JInt 1),
           (''max_iterations'', JInt 3),
           (''created_at'', JStr ''2024-04-30T10:00:00''),
           (''updated_at'', JStr ''2024-05-01T10:00:00'')])],
       log = [StopExecution ''arn:aws:states:us-east-1:123456789012:execution:bedrock-builder-workflow:b9'',
              UpdateItem ''b9''
                [(''status'', JStr ''cancelled''), (''updated_at'', JStr ''2024-05-01T10:00:00'')]]\<rparr>)"
  by (simp add: cancel_build_def cancel_request_def second_last_def stored_build_def get_item_def
      dict_get_def cancel_refused_def sample_env_def execution_arn_of_def note_effect_def
      do_update_item_def update_item_def attr_name_def reserved_words_def shown_target_def
      set_attrs_def Let_def)

text \<open>
  Claim C4, as the handler has it. When the status check lets the build through (its
  status is none of \<^verbatim>\<open>completed\<close>, \<^verbatim>\<open>cancelled\<close>, \<^verbatim>\<open>failed\<close>, as for every
  status that is not terminal) and \<^verbatim>\<open>stop_execution\<close> raises
  \<^verbatim>\<open>ExecutionDoesNotExist\<close>, the response is 400 \<^verbatim>\<open>Cannot cancel build\<close> and the
  table is left as it is: the call to \<^verbatim>\<open>stop_execution\<close> is the only effect.
\<close>

theorem cancel_build_execution_gone:
  assumes "second_last (split_on CHR ''/'' (path ev)) = Inr build_id"
    and "get_item (tbl w) build_id = Some build"
    and "\<not> cancel_refused (dict_get build ''status'' (JStr ''unknown''))"
    and "stop_execution en (execution_arn_of en build_id) = ExecutionDoesNotExist"
  shows "fst (cancel_build en ev w) =
           Inr (respond 400
              [(''error'', JStr ''Cannot cancel build''),
               (''message'', JStr ''Step Functions execution not found or already completed'')])
       \<and> tbl (snd (cancel_build en ev w)) = tbl w
       \<and> log (snd (cancel_build en ev w)) = log w @ [StopExecution (execution_arn_of en build_id)]"
  using assms
  by (simp add: cancel_build_def Let_def note_effect_def)

theorem cancel_build_execution_gone_witness:
  "second_last (split_on CHR ''/'' (path (cancel_request ''b3''))) = Inr ''b3''
   \<and> get_item (tbl sample_world) ''b3''
       = Some (snd (stored_build ''b3'' ''testing'' ''2024-04-30T11:00:00''))
   \<and> fst (cancel_build (sample_env (Inr ''arn:1'') ExecutionDoesNotExist)
             (cancel_request ''b3'') sample_world)
       = Inr (respond 400
           [(''error'', JStr ''Cannot cancel build''),
            (''message'', JStr ''Step Functions execution not found or already completed'')])
   \<and> tbl (snd (cancel_build (sample_env (Inr ''arn:1'') ExecutionDoesNotExist)
                  (cancel_request ''b3'') sample_world))
       = tbl sample_world"
proof -
  have p: "second_last (split_on CHR ''/'' (path (cancel_request ''b3''))) = Inr ''b3''"
    by (simp add: cancel_request_def second_last_def)
  have g: "get_item (tbl sample_world) ''b3''
      = Some (snd (stored_build ''b3'' ''testing'' ''2024-04-30T11:00:00''))"
    by (simp add: sample_world_def stored_build_def get_item_def)
  have c: "\<not> cancel_refused
      (dict_get (snd (stored_build ''b3'' ''testing'' ''2024-04-30T11:00:00'')) ''status''
         (JStr ''unknown''))"
    by (simp add: stored_build_def dict_get_def cancel_refused_def)
  have e: "stop_execution (sample_env (Inr ''arn:1'') ExecutionDoesNotExist)
      (execution_arn_of (sample_env (Inr ''arn:1'') ExecutionDoesNotExist) ''b3'')
        = ExecutionDoesNotExist"
    by (simp add: sample_env_def)
  from p g cancel_build_execution_gone [OF p g c e] show ?thesis
    by simp
qed

text \<open>
  The claim as first stated has no error surfaced to the caller. The handler answers
  with the status code 400 and an \<^verbatim>\<open>error\<close> in the body.
\<close>

theorem cancel_execution_gone_answers_error:
  "fst (cancel_build (sample_env (Inr ''arn:1'') ExecutionDoesNotExist) (cancel_request ''b3'')
      \<lparr>tbl = [stored_build ''b3'' ''testing'' ''2024-04-30T11:00:00''], log = []\<rparr>)
   = Inr \<lparr>statusCode = 400,
          body = JObj [(''error'', JStr ''Cannot cancel build''),
                       (''message'', JStr ''Step Functions execution not found or already completed'')]\<rparr>"
  by (simp add: cancel_build_def cancel_request_def second_last_def stored_build_def get_item_def
      dict_get_def cancel_refused_def sample_env_def execution_arn_of_def note_effect_def respond_def)

section \<open>Listing builds by status\<close>

text \<open>
  Claim C8. For a list request with a status filter, the records returned all have
  that status, are in descending order of \<^verbatim>\<open>created_at\<close>, are at most 50 records of
  the table, and \<^verbatim>\<open>count\<close> is their number.
\<close>

theorem list_builds_by_status:
  assumes "queryStringParameters ev = Some params"
    and "map_of params ''status'' = Some s"
    and "s \<noteq> []"
  shows "\<exists>items.
           list_builds ev w =
             Inr (respond 200
               [(''builds'', JArr (map JObj items)), (''count'', JInt (int (length items)))])
         \<and> (\<forall>item \<in> set items.
               map_of item ''status'' = Some (JStr s)
             \<and> map_of item ''created_at'' = Some (JStr (sort_value status_index item))
             \<and> item \<in> snd ` set (tbl w))
         \<and> sorted_wrt (\<lambda>a b. b \<le> a) (map (sort_value status_index) items)
         \<and> length items \<le> 50"
proof -
  let ?items = "index_query status_index s False 50 (tbl w)"
  have r: "list_builds ev w =
      Inr (respond 200
        [(''builds'', JArr (map JObj ?items)), (''count'', JInt (int (length ?items)))])"
    using assms by (simp add: list_builds_def table_query_status_index)
  have m: "\<forall>item \<in> set ?items.
       map_of item ''status'' = Some (JStr s)
     \<and> map_of item ''created_at'' = Some (JStr (sort_value status_index item))
     \<and> item \<in> snd ` set (tbl w)"
  proof
    fix item assume "item \<in> set ?items"
    from index_query_members [OF this]
    show "map_of item ''status'' = Some (JStr s)
     \<and> map_of item ''created_at'' = Some (JStr (sort_value status_index item))
     \<and> item \<in> snd ` set (tbl w)"
      by (auto simp add: status_index_def split: option.splits json.splits)
  qed
  show ?thesis
    by (rule exI [of _ ?items]) (intro conjI r m index_query_descending index_query_length)
qed

theorem list_builds_by_status_witness:
  "list_builds \<lparr>path = ''/builds'', httpMethod = ''GET'', ev_body = BodyNotText,
       queryStringParameters = Some [(''status'', ''passed'')]\<rparr> sample_world
     = Inr (respond 200
         [(''builds'', JArr [JObj (snd (stored_build ''b9'' ''passed'' ''2024-04-30T10:00:00'')),
                             JObj (snd (stored_build ''b7'' ''passed'' ''2024-04-30T09:00:00''))]),
          (''count'', JInt 2)])"
  using list_builds_by_status [of "\<lparr>path = ''/builds'', httpMethod = ''GET'', ev_body = BodyNotText,
       queryStringParameters = Some [(''status'', ''passed'')]\<rparr>" "[(''status'', ''passed'')]"
       "''passed''" sample_world]
  by (simp add: list_builds_def table_query_status_index index_query_def status_index_def
      sample_world_def stored_build_def in_index_def sort_value_def)

end
